theory Spec2Isabelle
  imports Main
begin

section \<open>JavaScript values\<close>

text \<open>
  The value a response body parses to. Numbers are kept as integers: the hooks never
  compute with a number, they only pass it on or test it for truthiness. An object is
  the list of its own properties, read with \<open>map_of\<close>.
\<close>

datatype json =
    JNull
  | JBool bool
  | JNum int
  | JStr string
  | JArr "json list"
  | JObj "(string \<times> json) list"

text \<open>A JavaScript value as the hooks see it: \<open>None\<close> is \<open>undefined\<close>.\<close>

type_synonym jsval = "json option"

text \<open>An object literal: its properties in the order written.\<close>

type_synonym js_object = "(string \<times> jsval) list"

definition field :: "js_object \<Rightarrow> string \<Rightarrow> jsval" where
  "field obj k = (case map_of obj k of None \<Rightarrow> None | Some v \<Rightarrow> v)"

text \<open>Truthiness, as the operator \<open>||\<close> tests it.\<close>

fun truthy :: "jsval \<Rightarrow> bool" where
  "truthy None = False"
| "truthy (Some JNull) = False"
| "truthy (Some (JBool b)) = b"
| "truthy (Some (JNum n)) = (n \<noteq> 0)"
| "truthy (Some (JStr s)) = (s \<noteq> [])"
| "truthy (Some (JArr xs)) = True"
| "truthy (Some (JObj kvs)) = True"

definition js_or :: "jsval \<Rightarrow> jsval \<Rightarrow> jsval" where
  "js_or a b = (if truthy a then a else b)"

text \<open>
  What a \<open>throw\<close> or a rejected promise carries: an instance of \<open>Error\<close> with its
  message, or any other value.
\<close>

datatype js_thrown = ErrorInstance string | NonError jsval

text \<open>An awaited expression either throws or yields a value.\<close>

type_synonym 'a completion = "js_thrown + 'a"

section \<open>The runtime the hooks call into\<close>

text \<open>
  A request as \<open>fetch\<close> receives it: the URL and the options \<open>method\<close> (here
  \<open>http_method\<close>), \<open>headers\<close> and \<open>body\<close>.
\<close>

record request =
  url :: string
  http_method :: string
  headers :: "(string \<times> string) list"
  body :: string

text \<open>
  A response as the hooks use it: \<open>response.ok\<close> (true exactly for the statuses
  200 to 299) and what \<open>response.json()\<close> settles to.
\<close>

record response =
  status_code :: nat
  json_result :: "json completion"

definition response_ok :: "response \<Rightarrow> bool" where
  "response_ok r = (200 \<le> status_code r \<and> status_code r \<le> 299)"

text \<open>
  The functions of the platform: \<open>fetch\<close> (what the network answers to a request),
  \<open>JSON.stringify\<close>, \<open>String.prototype.trim\<close>, and the message of the \<open>TypeError\<close>
  the engine throws when a property of \<open>null\<close> is read (its text differs between
  engines).
\<close>

record runtime =
  fetch_result :: "request \<Rightarrow> response completion"
  JSON_stringify :: "js_object \<Rightarrow> string"
  String_trim :: "string \<Rightarrow> string"
  null_read_message :: "string \<Rightarrow> string"

text \<open>
  \<open>data.p\<close> for a parsed body and one of the names the hooks read (\<open>error\<close>,
  \<open>person_id\<close>, \<open>message\<close>, \<open>job_id\<close>): reading a property of \<open>null\<close> throws, an
  object gives its property or \<open>undefined\<close>, every other value gives \<open>undefined\<close>.
\<close>

fun get_prop :: "runtime \<Rightarrow> json \<Rightarrow> string \<Rightarrow> jsval completion" where
  "get_prop rt JNull p = Inl (ErrorInstance (null_read_message rt p))"
| "get_prop rt (JObj kvs) p = Inr (map_of kvs p)"
| "get_prop rt (JBool b) p = Inr None"
| "get_prop rt (JNum n) p = Inr None"
| "get_prop rt (JStr s) p = Inr None"
| "get_prop rt (JArr xs) p = Inr None"

section \<open>Hook state\<close>

text \<open>
  The two state cells of a hook instance, and the sequence of effects performed so far
  (state updates and network calls, in program order).
\<close>

datatype event = SetIsLoading bool | SetError jsval | Fetch request

record hook_state =
  isLoading :: bool
  error :: jsval
  trace :: "event list"

definition initial_hook_state :: hook_state where
  "initial_hook_state = \<lparr>isLoading = False, error = Some JNull, trace = []\<rparr>"

definition setIsLoading :: "bool \<Rightarrow> hook_state \<Rightarrow> hook_state" where
  "setIsLoading b w = w\<lparr>isLoading := b, trace := trace w @ [SetIsLoading b]\<rparr>"

definition setError :: "jsval \<Rightarrow> hook_state \<Rightarrow> hook_state" where
  "setError e w = w\<lparr>error := e, trace := trace w @ [SetError e]\<rparr>"

definition fetch :: "runtime \<Rightarrow> request \<Rightarrow> hook_state \<Rightarrow> response completion \<times> hook_state" where
  "fetch rt req w = (fetch_result rt req, w\<lparr>trace := trace w @ [Fetch req]\<rparr>)"

text \<open>
  \<open>try { block } catch (err) { handler } finally { fin }\<close>, for a \<open>finally\<close> block that
  completes normally: an exception of the block goes to the handler, and the \<open>finally\<close>
  block runs last in either case.
\<close>

definition try_catch_finally ::
  "(hook_state \<Rightarrow> 'a completion \<times> hook_state) \<Rightarrow>
   (js_thrown \<Rightarrow> hook_state \<Rightarrow> 'a completion \<times> hook_state) \<Rightarrow>
   (hook_state \<Rightarrow> hook_state) \<Rightarrow> hook_state \<Rightarrow> 'a completion \<times> hook_state" where
  "try_catch_finally block handler fin w =
     (let (c, w1) = block w;
          (c', w2) = (case c of Inl err \<Rightarrow> handler err w1 | Inr v \<Rightarrow> (Inr v, w1))
      in (c', fin w2))"

text \<open>The \<open>catch\<close> block, the same text in all five actions.\<close>

definition catch_block :: "js_thrown \<Rightarrow> hook_state \<Rightarrow> js_object completion \<times> hook_state" where
  "catch_block err w =
     (let message = (case err of ErrorInstance m \<Rightarrow> m | NonError v \<Rightarrow> ''Network error'')
      in (Inr [(''success'', Some (JBool False)), (''error'', Some (JStr message))],
          setError (Some (JStr message)) w))"

definition json_headers :: "(string \<times> string) list" where
  "json_headers = [(''Content-Type'', ''application/json'')]"

section \<open>The subscription hook\<close>

text \<open>
  Each action is an \<open>async\<close> function: it returns a promise, here the completion
  (\<open>Inl\<close> a rejection, \<open>Inr\<close> the value it resolves to) and the hook state it leaves.
  The argument has the shape its TypeScript type gives it: an object for \<open>subscribe\<close>
  and the three send actions, a string for \<open>unsubscribe\<close>.
\<close>

definition subscribe ::
  "runtime \<Rightarrow> string \<Rightarrow> js_object \<Rightarrow> hook_state \<Rightarrow> js_object completion \<times> hook_state" where
  "subscribe rt apiUrl params w0 =
     (let email = field params ''email''; name = field params ''name'';
          tags = field params ''tags'';
          w1 = setIsLoading True w0;
          w2 = setError (Some JNull) w1
      in try_catch_finally
           (\<lambda>w. let (r, wa) = fetch rt
                        \<lparr>url = apiUrl @ ''?action=subscribe'', http_method = ''POST'',
                         headers = json_headers,
                         body = JSON_stringify rt
                           [(''email'', email), (''name'', name), (''tags'', tags)]\<rparr> w
                 in case r of Inl err \<Rightarrow> (Inl err, wa)
                    | Inr resp \<Rightarrow>
                       (case json_result resp of Inl err \<Rightarrow> (Inl err, wa)
                        | Inr data \<Rightarrow>
                           if \<not> response_ok resp then
                             (case get_prop rt data ''error'' of Inl err \<Rightarrow> (Inl err, wa)
                              | Inr e \<Rightarrow>
                                 (Inr [(''success'', Some (JBool False)), (''error'', e)],
                                  setError (js_or e (Some (JStr ''Subscribe failed''))) wa))
                           else
                             (case get_prop rt data ''person_id'' of Inl err \<Rightarrow> (Inl err, wa)
                              | Inr pid \<Rightarrow>
                                 (Inr [(''success'', Some (JBool True)), (''person_id'', pid)],
                                  wa))))
           catch_block (setIsLoading False) w2)"

definition unsubscribe ::
  "runtime \<Rightarrow> string \<Rightarrow> string \<Rightarrow> hook_state \<Rightarrow> js_object completion \<times> hook_state" where
  "unsubscribe rt apiUrl email w0 =
     (let w1 = setIsLoading True w0;
          w2 = setError (Some JNull) w1
      in try_catch_finally
           (\<lambda>w. let (r, wa) = fetch rt
                        \<lparr>url = apiUrl @ ''?action=unsubscribe'', http_method = ''POST'',
                         headers = json_headers,
                         body = JSON_stringify rt [(''email'', Some (JStr email))]\<rparr> w
                 in case r of Inl err \<Rightarrow> (Inl err, wa)
                    | Inr resp \<Rightarrow>
                       (case json_result resp of Inl err \<Rightarrow> (Inl err, wa)
                        | Inr data \<Rightarrow>
                           if \<not> response_ok resp then
                             (case get_prop rt data ''error'' of Inl err \<Rightarrow> (Inl err, wa)
                              | Inr e \<Rightarrow>
                                 (Inr [(''success'', Some (JBool False)), (''error'', e)],
                                  setError (js_or e (Some (JStr ''Unsubscribe failed''))) wa))
                           else
                             (case get_prop rt data ''message'' of Inl err \<Rightarrow> (Inl err, wa)
                              | Inr v \<Rightarrow>
                                 (Inr [(''success'', Some (JBool True)), (''message'', v)],
                                  wa))))
           catch_block (setIsLoading False) w2)"

section \<open>The transactional-mail hook\<close>

definition sendEmail ::
  "runtime \<Rightarrow> string \<Rightarrow> js_object \<Rightarrow> hook_state \<Rightarrow> js_object completion \<times> hook_state" where
  "sendEmail rt apiUrl params w0 =
     (let w1 = setIsLoading True w0;
          w2 = setError (Some JNull) w1
      in try_catch_finally
           (\<lambda>w. let (r, wa) = fetch rt
                        \<lparr>url = apiUrl @ ''?action=send'', http_method = ''POST'',
                         headers = json_headers,
                         body = JSON_stringify rt params\<rparr> w
                 in case r of Inl err \<Rightarrow> (Inl err, wa)
                    | Inr resp \<Rightarrow>
                       (case json_result resp of Inl err \<Rightarrow> (Inl err, wa)
                        | Inr data \<Rightarrow>
                           if \<not> response_ok resp then
                             (case get_prop rt data ''error'' of Inl err \<Rightarrow> (Inl err, wa)
                              | Inr e \<Rightarrow>
                                 (Inr [(''success'', Some (JBool False)), (''error'', e)],
                                  setError (js_or e (Some (JStr ''Send failed''))) wa))
                           else
                             (case get_prop rt data ''job_id'' of Inl err \<Rightarrow> (Inl err, wa)
                              | Inr v \<Rightarrow>
                                 (Inr [(''success'', Some (JBool True)), (''job_id'', v)],
                                  wa))))
           catch_block (setIsLoading False) w2)"

definition sendTemplate ::
  "runtime \<Rightarrow> string \<Rightarrow> js_object \<Rightarrow> hook_state \<Rightarrow> js_object completion \<times> hook_state" where
  "sendTemplate rt apiUrl params w0 =
     (let w1 = setIsLoading True w0;
          w2 = setError (Some JNull) w1
      in try_catch_finally
           (\<lambda>w. let (r, wa) = fetch rt
                        \<lparr>url = apiUrl @ ''?action=send-template'', http_method = ''POST'',
                         headers = json_headers,
                         body = JSON_stringify rt params\<rparr> w
                 in case r of Inl err \<Rightarrow> (Inl err, wa)
                    | Inr resp \<Rightarrow>
                       (case json_result resp of Inl err \<Rightarrow> (Inl err, wa)
                        | Inr data \<Rightarrow>
                           if \<not> response_ok resp then
                             (case get_prop rt data ''error'' of Inl err \<Rightarrow> (Inl err, wa)
                              | Inr e \<Rightarrow>
                                 (Inr [(''success'', Some (JBool False)), (''error'', e)],
                                  setError (js_or e (Some (JStr ''Send failed''))) wa))
                           else
                             (case get_prop rt data ''job_id'' of Inl err \<Rightarrow> (Inl err, wa)
                              | Inr v \<Rightarrow>
                                 (Inr [(''success'', Some (JBool True)), (''job_id'', v)],
                                  wa))))
           catch_block (setIsLoading False) w2)"

definition sendTest ::
  "runtime \<Rightarrow> string \<Rightarrow> js_object \<Rightarrow> hook_state \<Rightarrow> js_object completion \<times> hook_state" where
  "sendTest rt apiUrl params w0 =
     (let w1 = setIsLoading True w0;
          w2 = setError (Some JNull) w1
      in try_catch_finally
           (\<lambda>w. let (r, wa) = fetch rt
                        \<lparr>url = apiUrl @ ''?action=test'', http_method = ''POST'',
                         headers = json_headers,
                         body = JSON_stringify rt params\<rparr> w
                 in case r of Inl err \<Rightarrow> (Inl err, wa)
                    | Inr resp \<Rightarrow>
                       (case json_result resp of Inl err \<Rightarrow> (Inl err, wa)
                        | Inr data \<Rightarrow>
                           if \<not> response_ok resp then
                             (case get_prop rt data ''error'' of Inl err \<Rightarrow> (Inl err, wa)
                              | Inr e \<Rightarrow>
                                 (Inr [(''success'', Some (JBool False)), (''error'', e)],
                                  setError (js_or e (Some (JStr ''Test failed''))) wa))
                           else
                             (case get_prop rt data ''job_id'' of Inl err \<Rightarrow> (Inl err, wa)
                              | Inr v \<Rightarrow>
                                 (Inr [(''success'', Some (JBool True)), (''job_id'', v)],
                                  wa))))
           catch_block (setIsLoading False) w2)"

section \<open>The five actions together\<close>

text \<open>A call of one of the five actions with its argument.\<close>

datatype hook_call =
    Subscribe js_object
  | Unsubscribe string
  | SendEmail js_object
  | SendTemplate js_object
  | SendTest js_object

fun invoke ::
  "runtime \<Rightarrow> string \<Rightarrow> hook_call \<Rightarrow> hook_state \<Rightarrow> js_object completion \<times> hook_state" where
  "invoke rt apiUrl (Subscribe params) w = subscribe rt apiUrl params w"
| "invoke rt apiUrl (Unsubscribe email) w = unsubscribe rt apiUrl email w"
| "invoke rt apiUrl (SendEmail params) w = sendEmail rt apiUrl params w"
| "invoke rt apiUrl (SendTemplate params) w = sendTemplate rt apiUrl params w"
| "invoke rt apiUrl (SendTest params) w = sendTest rt apiUrl params w"

text \<open>
  The HTTP contract of each action as the interface description gives it: the value of
  the \<open>action\<close> query parameter, the object that is serialised into the body, and the
  request made of them.
\<close>

fun action_name :: "hook_call \<Rightarrow> string" where
  "action_name (Subscribe params) = ''subscribe''"
| "action_name (Unsubscribe email) = ''unsubscribe''"
| "action_name (SendEmail params) = ''send''"
| "action_name (SendTemplate params) = ''send-template''"
| "action_name (SendTest params) = ''test''"

fun payload :: "hook_call \<Rightarrow> js_object" where
  "payload (Subscribe params) =
     [(''email'', field params ''email''), (''name'', field params ''name''),
      (''tags'', field params ''tags'')]"
| "payload (Unsubscribe email) = [(''email'', Some (JStr email))]"
| "payload (SendEmail params) = params"
| "payload (SendTemplate params) = params"
| "payload (SendTest params) = params"

definition request_of :: "runtime \<Rightarrow> string \<Rightarrow> hook_call \<Rightarrow> request" where
  "request_of rt apiUrl call =
     \<lparr>url = apiUrl @ ''?action='' @ action_name call, http_method = ''POST'',
      headers = [(''Content-Type'', ''application/json'')],
      body = JSON_stringify rt (payload call)\<rparr>"

text \<open>The text each action shows when a failed response carries no usable error.\<close>

fun fallback :: "hook_call \<Rightarrow> string" where
  "fallback (Subscribe params) = ''Subscribe failed''"
| "fallback (Unsubscribe email) = ''Unsubscribe failed''"
| "fallback (SendEmail params) = ''Send failed''"
| "fallback (SendTemplate params) = ''Send failed''"
| "fallback (SendTest params) = ''Test failed''"

text \<open>The property of the body that a successful call copies into its result.\<close>

fun ok_field :: "hook_call \<Rightarrow> string" where
  "ok_field (Subscribe params) = ''person_id''"
| "ok_field (Unsubscribe email) = ''message''"
| "ok_field (SendEmail params) = ''job_id''"
| "ok_field (SendTemplate params) = ''job_id''"
| "ok_field (SendTest params) = ''job_id''"

text \<open>Whether an effect of the trace is a network call.\<close>

fun is_fetch :: "event \<Rightarrow> bool" where
  "is_fetch (Fetch req) = True"
| "is_fetch (SetIsLoading b) = False"
| "is_fetch (SetError e) = False"

section \<open>The test banner\<close>

text \<open>
  The properties of \<open>UnisenderTestButton\<close>; the two optional ones have defaults.
\<close>

record props =
  apiUrl :: string
  storageKey :: "string option"
  forceShow :: "bool option"

definition storageKey_of :: "props \<Rightarrow> string" where
  "storageKey_of p = (case storageKey p of None \<Rightarrow> ''unisender_configured'' | Some k \<Rightarrow> k)"

definition forceShow_of :: "props \<Rightarrow> bool" where
  "forceShow_of p = (case forceShow p of None \<Rightarrow> False | Some b \<Rightarrow> b)"

datatype status = StatusIdle | StatusSuccess | StatusError

text \<open>
  The state cells of one mounted banner, together with the state of the hook instance
  it owns.
\<close>

record button_state =
  isConfigured :: bool
  email :: string
  status :: status
  message :: jsval
  hook :: hook_state

definition initial_button_state :: button_state where
  "initial_button_state =
     \<lparr>isConfigured = True, email = [], status = StatusIdle, message = Some (JStr []),
      hook = initial_hook_state\<rparr>"

text \<open>
  The browser around the component: local storage, the log of the reads and writes
  made to it, and the timers that have been set and have not fired yet (delay in
  milliseconds and what to run). Storage calls are taken to succeed.
\<close>

datatype storage_op = GetItem string | SetItem string string

datatype timer_callback = HideBanner

record browser =
  localStorage :: "string \<rightharpoonup> string"
  storage_log :: "storage_op list"
  timers :: "(nat \<times> timer_callback) list"

definition getItem :: "string \<Rightarrow> browser \<Rightarrow> string option \<times> browser" where
  "getItem k env = (localStorage env k, env\<lparr>storage_log := storage_log env @ [GetItem k]\<rparr>)"

definition setItem :: "string \<Rightarrow> string \<Rightarrow> browser \<Rightarrow> browser" where
  "setItem k v env =
     env\<lparr>localStorage := (localStorage env)(k \<mapsto> v),
         storage_log := storage_log env @ [SetItem k v]\<rparr>"

definition setTimeout :: "timer_callback \<Rightarrow> nat \<Rightarrow> browser \<Rightarrow> browser" where
  "setTimeout cb delay env = env\<lparr>timers := timers env @ [(delay, cb)]\<rparr>"

text \<open>The effect that runs at mount (and again when one of its two inputs changes).\<close>

definition mount_effect :: "props \<Rightarrow> button_state \<times> browser \<Rightarrow> button_state \<times> browser" where
  "mount_effect p = (\<lambda>(st, env).
     let (configured, env1) = getItem (storageKey_of p) env
     in (st\<lparr>isConfigured := (configured = Some ''true'' \<and> \<not> forceShow_of p)\<rparr>, env1))"

definition mount :: "props \<Rightarrow> browser \<Rightarrow> button_state \<times> browser" where
  "mount p env = mount_effect p (initial_button_state, env)"

text \<open>
  What the component renders: nothing while \<open>isConfigured\<close> holds, otherwise the panel.
  Of the panel the model keeps what depends on the state: the input's value, whether
  input and button are disabled, and the message box with its colour class.
\<close>

record view =
  input_value :: string
  controls_disabled :: bool
  message_box :: "(jsval \<times> bool) option"

definition render :: "button_state \<Rightarrow> view option" where
  "render st =
     (if isConfigured st then None
      else Some \<lparr>input_value = email st, controls_disabled = isLoading (hook st),
                 message_box = (if truthy (message st)
                                then Some (message st, status st = StatusSuccess) else None)\<rparr>)"

text \<open>The four texts of the panel, as UTF-8 bytes (the source has them in Russian).\<close>

definition msg_enter_email :: string where
  "msg_enter_email = map char_of
     [208, 146, 208, 178, 208, 181, 208, 180, 208, 184, 209, 130, 208, 181, 32, 101, 109,
      97, 105, 108 :: nat]"

definition msg_bad_format :: string where
  "msg_bad_format = map char_of
     [208, 157, 208, 181, 208, 178, 208, 181, 209, 128, 208, 189, 209, 139, 208, 185, 32,
      209, 132, 208, 190, 209, 128, 208, 188, 208, 176, 209, 130, 32, 101, 109, 97, 105,
      108 :: nat]"

definition msg_sent :: string where
  "msg_sent = map char_of
     [208, 162, 208, 181, 209, 129, 209, 130, 208, 190, 208, 178, 208, 190, 208, 181, 32,
      208, 191, 208, 184, 209, 129, 209, 140, 208, 188, 208, 190, 32, 208, 190, 209, 130,
      208, 191, 209, 128, 208, 176, 208, 178, 208, 187, 208, 181, 208, 189, 208, 190, 33,
      32, 208, 159, 209, 128, 208, 190, 208, 178, 208, 181, 209, 128, 209, 140, 209, 130,
      208, 181, 32, 208, 191, 208, 190, 209, 135, 209, 130, 209, 131, 46 :: nat]"

definition msg_send_error :: string where
  "msg_send_error = map char_of
     [208, 158, 209, 136, 208, 184, 208, 177, 208, 186, 208, 176, 32, 208, 190, 209, 130,
      208, 191, 209, 128, 208, 176, 208, 178, 208, 186, 208, 184 :: nat]"

text \<open>
  The click handler. It returns a promise; \<open>Inl\<close> is its rejection, which can only come
  from \<open>sendTest\<close>.
\<close>

definition handleTest ::
  "runtime \<Rightarrow> props \<Rightarrow> button_state \<times> browser \<Rightarrow> unit completion \<times> button_state \<times> browser" where
  "handleTest rt p = (\<lambda>(st, env).
     if String_trim rt (email st) = [] then
       (Inr (), st\<lparr>status := StatusError, message := Some (JStr msg_enter_email)\<rparr>, env)
     else if CHR ''@'' \<notin> set (email st) then
       (Inr (), st\<lparr>status := StatusError, message := Some (JStr msg_bad_format)\<rparr>, env)
     else
       let st1 = st\<lparr>status := StatusIdle, message := Some (JStr [])\<rparr>;
           (c, h) = sendTest rt (apiUrl p)
                      [(''to_email'', Some (JStr (String_trim rt (email st))))] (hook st1);
           st2 = st1\<lparr>hook := h\<rparr>
       in case c of
            Inl err \<Rightarrow> (Inl err, st2, env)
          | Inr result \<Rightarrow>
              if truthy (field result ''success'') then
                (Inr (),
                 st2\<lparr>status := StatusSuccess, message := Some (JStr msg_sent)\<rparr>,
                 setTimeout HideBanner 3000 (setItem (storageKey_of p) ''true'' env))
              else
                (Inr (),
                 st2\<lparr>status := StatusError,
                     message := js_or (field result ''error'') (Some (JStr msg_send_error))\<rparr>,
                 env))"

text \<open>A timer callback runs: the only one there is sets \<open>isConfigured\<close>.\<close>

fun run_callback :: "timer_callback \<Rightarrow> button_state \<Rightarrow> button_state" where
  "run_callback HideBanner st = st\<lparr>isConfigured := True\<rparr>"

text \<open>
  What can happen to a mounted banner: the user edits the input, the user clicks the
  button, or the oldest pending timer fires. Input and button exist only while the
  panel is rendered.
\<close>

datatype ui_action = ChangeEmail string | ClickTest | TimerFires

fun step :: "runtime \<Rightarrow> props \<Rightarrow> ui_action \<Rightarrow> button_state \<times> browser \<Rightarrow> button_state \<times> browser" where
  "step rt p (ChangeEmail v) (st, env) =
     (if isConfigured st then (st, env) else (st\<lparr>email := v\<rparr>, env))"
| "step rt p ClickTest (st, env) =
     (if isConfigured st then (st, env) else snd (handleTest rt p (st, env)))"
| "step rt p TimerFires (st, env) =
     (case timers env of [] \<Rightarrow> (st, env)
      | (delay, cb) # rest \<Rightarrow> (run_callback cb st, env\<lparr>timers := rest\<rparr>))"

definition run :: "runtime \<Rightarrow> props \<Rightarrow> ui_action list \<Rightarrow> button_state \<times> browser \<Rightarrow> button_state \<times> browser" where
  "run rt p acts s = foldl (\<lambda>s a. step rt p a s) s acts"

text \<open>Whether a storage operation is a read.\<close>

fun is_read :: "storage_op \<Rightarrow> bool" where
  "is_read (GetItem k) = True"
| "is_read (SetItem k v) = False"

text \<open>
  Whether a click on the button leads to a successful test send from the state \<open>st\<close>:
  the input passes both checks and \<open>sendTest\<close> resolves to a result whose \<open>success\<close>
  is truthy.
\<close>

definition test_send_succeeds :: "runtime \<Rightarrow> props \<Rightarrow> button_state \<Rightarrow> bool" where
  "test_send_succeeds rt p st =
     (String_trim rt (email st) \<noteq> [] \<and> CHR ''@'' \<in> set (email st) \<and>
      (case fst (sendTest rt (apiUrl p)
                   [(''to_email'', Some (JStr (String_trim rt (email st))))] (hook st)) of
         Inl err \<Rightarrow> False
       | Inr result \<Rightarrow> truthy (field result ''success'')))"

section \<open>Worked examples\<close>

text \<open>
  A runtime for the examples: the network gives the same answer to every request,
  \<open>trim\<close> strips blanks, and every request body is written as the fixed text \<open>{}\<close>
  (no example looks into a body).
\<close>

definition example_trim :: "string \<Rightarrow> string" where
  "example_trim s =
     rev (dropWhile (\<lambda>c. c = CHR '' '') (rev (dropWhile (\<lambda>c. c = CHR '' '') s)))"

definition example_runtime :: "response completion \<Rightarrow> runtime" where
  "example_runtime answer =
     \<lparr>fetch_result = (\<lambda>req. answer), JSON_stringify = (\<lambda>obj. ''{}''),
      String_trim = example_trim,
      null_read_message = (\<lambda>p. ''Cannot read properties of null (reading '' @ p @ '')'')\<rparr>"

definition example_mail :: js_object where
  "example_mail =
     [(''to_email'', Some (JStr ''a@b.com'')), (''subject'', Some (JStr ''Hi'')),
      (''body_html'', Some (JStr ''<p>Hi</p>''))]"

definition example_subscriber :: js_object where
  "example_subscriber = [(''email'', Some (JStr ''a@b.com''))]"

definition bad_subject_response :: response where
  "bad_subject_response =
     \<lparr>status_code = 400, json_result = Inr (JObj [(''error'', JStr ''bad subject'')])\<rparr>"

definition person_response :: response where
  "person_response =
     \<lparr>status_code = 200,
      json_result = Inr (JObj [(''success'', JBool True), (''person_id'', JNum 42)])\<rparr>"

definition html_response :: response where
  "html_response =
     \<lparr>status_code = 200,
      json_result = Inl (ErrorInstance ''Unexpected token < in JSON at position 0'')\<rparr>"

definition null_response :: "nat \<Rightarrow> response" where
  "null_response code = \<lparr>status_code = code, json_result = Inr JNull\<rparr>"

definition refusing_ok_response :: response where
  "refusing_ok_response =
     \<lparr>status_code = 200,
      json_result = Inr (JObj [(''success'', JBool False), (''error'', JStr ''quota'')])\<rparr>"

definition empty_error_response :: response where
  "empty_error_response = \<lparr>status_code = 500, json_result = Inr (JObj [])\<rparr>"

definition job_response :: response where
  "job_response =
     \<lparr>status_code = 200,
      json_result = Inr (JObj [(''success'', JBool True), (''job_id'', JStr ''j1'')])\<rparr>"

definition default_props :: props where
  "default_props = \<lparr>apiUrl = ''/api'', storageKey = None, forceShow = None\<rparr>"

definition forced_props :: props where
  "forced_props = \<lparr>apiUrl = ''/api'', storageKey = None, forceShow = Some True\<rparr>"

definition fresh_browser :: browser where
  "fresh_browser = \<lparr>localStorage = Map.empty, storage_log = [], timers = []\<rparr>"

definition configured_browser :: browser where
  "configured_browser =
     \<lparr>localStorage = [''unisender_configured'' \<mapsto> ''true''], storage_log = [], timers = []\<rparr>"

text \<open>The hook state a failed call has left: its error is still set.\<close>

definition failed_hook_state :: hook_state where
  "failed_hook_state =
     \<lparr>isLoading = False, error = Some (JStr ''bad subject''), trace = []\<rparr>"

text \<open>A rendered banner with an address typed into its input.\<close>

definition ready_state :: button_state where
  "ready_state = initial_button_state\<lparr>isConfigured := False, email := ''a@b.com''\<rparr>"

section \<open>The common shape of the five actions\<close>

lemmas action_defs = subscribe_def unsubscribe_def sendEmail_def sendTemplate_def sendTest_def

lemmas effect_defs = try_catch_finally_def catch_block_def fetch_def setError_def
  setIsLoading_def json_headers_def request_of_def

text \<open>
  Every action runs the same sequence: two state updates, one request, then one of
  three endings (the handler of the \<open>catch\<close> block, the failure branch, the success
  branch), and the update of the \<open>finally\<close> block.
\<close>

lemma invoke_unfold:
  "invoke rt api call w =
     (let req = request_of rt api call;
          w3 = w\<lparr>isLoading := True, error := Some JNull,
                 trace := trace w @ [SetIsLoading True, SetError (Some JNull), Fetch req]\<rparr>;
          failed = (\<lambda>err.
             let m = (case err of ErrorInstance m \<Rightarrow> m | NonError v \<Rightarrow> ''Network error'')
             in (Inr [(''success'', Some (JBool False)), (''error'', Some (JStr m))],
                 w3\<lparr>isLoading := False, error := Some (JStr m),
                    trace := trace w3 @ [SetError (Some (JStr m)), SetIsLoading False]\<rparr>))
      in case fetch_result rt req of
           Inl err \<Rightarrow> failed err
         | Inr resp \<Rightarrow>
            (case json_result resp of
               Inl err \<Rightarrow> failed err
             | Inr data \<Rightarrow>
                if \<not> response_ok resp then
                  (case get_prop rt data ''error'' of
                     Inl err \<Rightarrow> failed err
                   | Inr e \<Rightarrow>
                      (Inr [(''success'', Some (JBool False)), (''error'', e)],
                       w3\<lparr>isLoading := False,
                          error := js_or e (Some (JStr (fallback call))),
                          trace := trace w3 @
                            [SetError (js_or e (Some (JStr (fallback call)))),
                             SetIsLoading False]\<rparr>))
                else
                  (case get_prop rt data (ok_field call) of
                     Inl err \<Rightarrow> failed err
                   | Inr v \<Rightarrow>
                      (Inr [(''success'', Some (JBool True)), (ok_field call, v)],
                       w3\<lparr>isLoading := False, trace := trace w3 @ [SetIsLoading False]\<rparr>))))"
  by (cases call) (simp_all add: action_defs effect_defs Let_def split: sum.splits)

lemma js_or_truthy: "truthy a \<Longrightarrow> js_or a b = a"
  by (simp add: js_or_def)

lemma ok_field_not_success: "ok_field call \<noteq> ''success''"
  by (cases call) simp_all

lemma get_prop_not_null: "data \<noteq> JNull \<Longrightarrow> \<exists>v. get_prop rt data p = Inr v"
  by (cases data) simp_all

text \<open>
  Reading a property gives \<open>undefined\<close> exactly when the body is not \<open>null\<close> and is not
  an object that has the property.
\<close>

lemma get_prop_undefined_iff:
  "get_prop rt data p = Inr None \<longleftrightarrow>
     data \<noteq> JNull \<and> (\<forall>kvs. data = JObj kvs \<longrightarrow> map_of kvs p = None)"
  by (cases data) simp_all

lemmas example_defs = example_runtime_def example_trim_def job_response_def response_ok_def
  default_props_def fresh_browser_def storageKey_of_def forceShow_of_def

lemmas banner_defs = mount_def mount_effect_def getItem_def setItem_def setTimeout_def
  handleTest_def render_def initial_button_state_def initial_hook_state_def run_def

section \<open>Storage and timers of the banner\<close>

text \<open>What a click does to the browser: nothing, unless the test send succeeds.\<close>

lemma handleTest_env:
  "snd (snd (handleTest rt p (st, env))) =
     (if test_send_succeeds rt p st
      then setTimeout HideBanner 3000 (setItem (storageKey_of p) ''true'' env) else env)"
  by (simp add: handleTest_def test_send_succeeds_def Let_def split: prod.splits sum.splits)

lemma handleTest_isConfigured:
  "isConfigured (fst (snd (handleTest rt p (st, env)))) = isConfigured st"
  by (simp add: handleTest_def Let_def split: prod.splits sum.splits)

lemma step_storage_log:
  "storage_log (snd (step rt p a (st, env))) =
     storage_log env @
     (if a = ClickTest \<and> \<not> isConfigured st \<and> test_send_succeeds rt p st
      then [SetItem (storageKey_of p) ''true''] else [])"
  by (cases a)
     (simp_all add: handleTest_env setTimeout_def setItem_def split: list.splits prod.splits)

text \<open>No sequence of user actions and timers reads the storage.\<close>

lemma run_reads:
  "filter is_read (storage_log (snd (run rt p acts s))) = filter is_read (storage_log (snd s))"
proof (induction acts arbitrary: s)
  case Nil
  then show ?case by (simp add: run_def)
next
  case (Cons a acts)
  obtain st env where s: "s = (st, env)" by (cases s)
  have "run rt p (a # acts) s = run rt p acts (step rt p a s)"
    by (simp add: run_def)
  then show ?case
    using Cons.IH [of "step rt p a s"] by (simp add: s step_storage_log)
qed

section \<open>Properties of the five actions\<close>

text \<open>
  Claim C1. For each of the five actions: when the response has a status outside
  200 to 299 and its body parses as JSON, the action resolves to a result whose
  \<open>success\<close> is \<open>false\<close>; when the parsed body has an \<open>error\<close> property, the result is
  exactly \<open>{success: false, error: e}\<close> with that property's value, and the hook's
  error state is that value too whenever it is truthy. The witness is the
  \<open>sendEmail\<close> call answered with status 400 and body \<open>{error: "bad subject"}\<close>.
\<close>

theorem non_ok_response_is_failure:
  assumes "fetch_result rt (request_of rt api call) = Inr resp"
    and "\<not> response_ok resp"
    and "json_result resp = Inr data"
  shows "\<exists>r w'. invoke rt api call w = (Inr r, w') \<and>
           field r ''success'' = Some (JBool False) \<and>
           (\<forall>e. get_prop rt data ''error'' = Inr (Some e) \<longrightarrow>
                r = [(''success'', Some (JBool False)), (''error'', Some e)] \<and>
                field r ''error'' = Some e \<and>
                (truthy (Some e) \<longrightarrow> error w' = Some e))"
  using assms
  by (cases "get_prop rt data ''error''")
     (simp_all add: invoke_unfold Let_def field_def js_or_truthy)

theorem non_ok_response_is_failure_witness:
  "fetch_result (example_runtime (Inr bad_subject_response))
     (request_of (example_runtime (Inr bad_subject_response)) ''/api'' (SendEmail example_mail))
     = Inr bad_subject_response \<and>
   \<not> response_ok bad_subject_response \<and>
   json_result bad_subject_response = Inr (JObj [(''error'', JStr ''bad subject'')]) \<and>
   fst (invoke (example_runtime (Inr bad_subject_response)) ''/api'' (SendEmail example_mail)
          initial_hook_state)
     = Inr [(''success'', Some (JBool False)), (''error'', Some (JStr ''bad subject''))] \<and>
   error (snd (invoke (example_runtime (Inr bad_subject_response)) ''/api''
                 (SendEmail example_mail) initial_hook_state))
     = Some (JStr ''bad subject'')"
  using non_ok_response_is_failure
    [of "example_runtime (Inr bad_subject_response)" "''/api''" "SendEmail example_mail"
        bad_subject_response "JObj [(''error'', JStr ''bad subject'')]" initial_hook_state]
  by (auto simp add: example_runtime_def bad_subject_response_def response_ok_def)

text \<open>
  Claim C2, as the specification states it, fails: a transport failure is not reported
  with a generic text. \<open>fetch\<close> rejects with an \<open>Error\<close> whose message is
  \<open>Failed to fetch\<close>, and \<open>subscribe\<close> resolves with that very message as its error,
  which is not the generic \<open>Network error\<close>.
\<close>

theorem transport_error_text_counterexample:
  "fetch_result (example_runtime (Inl (ErrorInstance ''Failed to fetch'')))
     (request_of (example_runtime (Inl (ErrorInstance ''Failed to fetch''))) ''/api''
        (Subscribe example_subscriber))
     = Inl (ErrorInstance ''Failed to fetch'') \<and>
   fst (invoke (example_runtime (Inl (ErrorInstance ''Failed to fetch''))) ''/api''
          (Subscribe example_subscriber) initial_hook_state)
     = Inr [(''success'', Some (JBool False)), (''error'', Some (JStr ''Failed to fetch''))] \<and>
   ''Failed to fetch'' \<noteq> ''Network error''"
  by (simp add: invoke_unfold Let_def example_runtime_def)

text \<open>
  Claim C2, amended. For each of the five actions: when \<open>fetch\<close> or the parsing of the
  body throws, the action resolves to \<open>{success: false, error: m}\<close> and sets the hook's
  error state to \<open>m\<close>, where \<open>m\<close> is the message of the thrown value when that is an
  instance of \<open>Error\<close>, and the generic text \<open>Network error\<close> for any other thrown value.
\<close>

theorem transport_failure_result:
  assumes "fetch_result rt (request_of rt api call) = Inl err \<or>
           (\<exists>resp. fetch_result rt (request_of rt api call) = Inr resp \<and>
                   json_result resp = Inl err)"
  shows "fst (invoke rt api call w) =
           Inr [(''success'', Some (JBool False)),
                (''error'', Some (JStr (case err of ErrorInstance m \<Rightarrow> m
                                            | NonError v \<Rightarrow> ''Network error'')))] \<and>
         error (snd (invoke rt api call w)) =
           Some (JStr (case err of ErrorInstance m \<Rightarrow> m | NonError v \<Rightarrow> ''Network error''))"
  using assms by (auto simp add: invoke_unfold Let_def)

theorem transport_failure_result_witness:
  "fetch_result (example_runtime (Inr html_response))
     (request_of (example_runtime (Inr html_response)) ''/api'' (Unsubscribe ''a@b.com''))
     = Inr html_response \<and>
   json_result html_response = Inl (ErrorInstance ''Unexpected token < in JSON at position 0'') \<and>
   fst (invoke (example_runtime (Inr html_response)) ''/api'' (Unsubscribe ''a@b.com'')
          initial_hook_state)
     = Inr [(''success'', Some (JBool False)),
            (''error'', Some (JStr ''Unexpected token < in JSON at position 0''))] \<and>
   error (snd (invoke (example_runtime (Inr html_response)) ''/api'' (Unsubscribe ''a@b.com'')
                 initial_hook_state))
     = Some (JStr ''Unexpected token < in JSON at position 0'')"
  using transport_failure_result
    [of "example_runtime (Inr html_response)" "''/api''" "Unsubscribe ''a@b.com''"
        "ErrorInstance ''Unexpected token < in JSON at position 0''" initial_hook_state]
  by (simp add: example_runtime_def html_response_def)

text \<open>
  Claim C3, as stated, fails: a response with status 200 whose body parses, to \<open>null\<close>,
  makes \<open>subscribe\<close> resolve with \<open>success\<close> equal to \<open>false\<close>, because reading
  \<open>data.person_id\<close> throws inside the \<open>try\<close> block.
\<close>

theorem ok_null_body_counterexample:
  "fetch_result (example_runtime (Inr (null_response 200)))
     (request_of (example_runtime (Inr (null_response 200))) ''/api''
        (Subscribe example_subscriber))
     = Inr (null_response 200) \<and>
   response_ok (null_response 200) \<and>
   json_result (null_response 200) = Inr JNull \<and>
   field (projr (fst (invoke (example_runtime (Inr (null_response 200))) ''/api''
                         (Subscribe example_subscriber) initial_hook_state))) ''success''
     = Some (JBool False)"
  by (simp add: invoke_unfold Let_def example_runtime_def null_response_def response_ok_def
      field_def)

text \<open>
  Claim C3, amended. For each of the five actions and every input, \<open>isLoading\<close> is
  \<open>false\<close> once the call has completed, whatever its outcome; and when the response has
  a status from 200 to 299 and its body parses to a value other than \<open>null\<close>, the
  resolved result is \<open>{success: true, f: data.f}\<close> for the action's result property
  \<open>f\<close>, so its \<open>success\<close> is \<open>true\<close>, and the hook's error state is \<open>null\<close>. The witness
  is \<open>subscribe\<close> with \<open>{email: "a@b.com"}\<close> answered by \<open>{success: true, person_id: 42}\<close>.
\<close>

theorem successful_call_result:
  "isLoading (snd (invoke rt api call w)) = False \<and>
   (\<forall>resp data. fetch_result rt (request_of rt api call) = Inr resp \<and> response_ok resp \<and>
        json_result resp = Inr data \<and> data \<noteq> JNull \<longrightarrow>
      (\<exists>v. get_prop rt data (ok_field call) = Inr v \<and>
           fst (invoke rt api call w) =
             Inr [(''success'', Some (JBool True)), (ok_field call, v)]) \<and>
      field (projr (fst (invoke rt api call w))) ''success'' = Some (JBool True) \<and>
      error (snd (invoke rt api call w)) = Some JNull)"
proof (intro conjI allI impI)
  show "isLoading (snd (invoke rt api call w)) = False"
    by (simp add: invoke_unfold Let_def split: sum.splits)
next
  fix resp data
  assume h: "fetch_result rt (request_of rt api call) = Inr resp \<and> response_ok resp \<and>
      json_result resp = Inr data \<and> data \<noteq> JNull"
  then obtain v where v: "get_prop rt data (ok_field call) = Inr v"
    using get_prop_not_null by blast
  from h v show "\<exists>v. get_prop rt data (ok_field call) = Inr v \<and>
      fst (invoke rt api call w) = Inr [(''success'', Some (JBool True)), (ok_field call, v)]"
    by (simp add: invoke_unfold Let_def)
  from h v show "field (projr (fst (invoke rt api call w))) ''success'' = Some (JBool True)"
    by (simp add: invoke_unfold Let_def field_def ok_field_not_success)
  from h v show "error (snd (invoke rt api call w)) = Some JNull"
    by (simp add: invoke_unfold Let_def)
qed

theorem successful_call_result_witness:
  "fetch_result (example_runtime (Inr person_response))
     (request_of (example_runtime (Inr person_response)) ''/api'' (Subscribe example_subscriber))
     = Inr person_response \<and>
   response_ok person_response \<and>
   json_result person_response
     = Inr (JObj [(''success'', JBool True), (''person_id'', JNum 42)]) \<and>
   fst (invoke (example_runtime (Inr person_response)) ''/api'' (Subscribe example_subscriber)
          initial_hook_state)
     = Inr [(''success'', Some (JBool True)), (''person_id'', Some (JNum 42))] \<and>
   isLoading (snd (invoke (example_runtime (Inr person_response)) ''/api''
                     (Subscribe example_subscriber) initial_hook_state)) = False \<and>
   error (snd (invoke (example_runtime (Inr person_response)) ''/api''
                 (Subscribe example_subscriber) initial_hook_state)) = Some JNull"
  using successful_call_result
    [of "example_runtime (Inr person_response)" "''/api''" "Subscribe example_subscriber"
        initial_hook_state]
  by (auto simp add: example_runtime_def person_response_def response_ok_def)



text \<open>
  Claim C6. Every call of one of the five actions makes exactly one network call and
  never a second one: among the effects it adds to the trace there is one \<open>fetch\<close>, a
  POST to the configured URL followed by \<open>?action=\<close> and the action's name in the HTTP
  contract (\<open>subscribe\<close>, \<open>unsubscribe\<close>, \<open>send\<close>, \<open>send-template\<close>, \<open>test\<close>), with the
  header \<open>Content-Type: application/json\<close> and the output of \<open>JSON.stringify\<close> as body.
\<close>

theorem one_post_request:
  "filter is_fetch (trace (snd (invoke rt api call w))) =
     filter is_fetch (trace w) @
     [Fetch \<lparr>url = api @ ''?action='' @ action_name call, http_method = ''POST'',
             headers = [(''Content-Type'', ''application/json'')],
             body = JSON_stringify rt (payload call)\<rparr>]"
  by (simp add: invoke_unfold Let_def request_of_def split: sum.splits)

text \<open>
  Claim C7. Every call of one of the five actions, from any hook state (whatever error
  the previous call left), first sets \<open>isLoading\<close>, then sets the error state to \<open>null\<close>,
  and only then makes its request: the error cell holds \<open>null\<close> after these first two
  updates. The prior error never survives the call: either nothing sets the error
  after the request and the cell is still \<open>null\<close> when the call has completed, or the
  call itself stores a new error after the request; and the whole outcome is the same
  as from a state whose error was \<open>null\<close> already. The witness is a successful
  \<open>sendEmail\<close> from a state that holds the error of an earlier failed call.
\<close>

theorem error_cleared_before_request:
  "(\<exists>rest. trace (snd (invoke rt api call w)) =
       trace w @ [SetIsLoading True, SetError (Some JNull), Fetch (request_of rt api call)]
         @ rest \<and>
     (rest = [SetIsLoading False] \<and> error (snd (invoke rt api call w)) = Some JNull \<or>
      (\<exists>e. rest = [SetError e, SetIsLoading False] \<and>
           error (snd (invoke rt api call w)) = e))) \<and>
   error (setError (Some JNull) (setIsLoading True w)) = Some JNull \<and>
   invoke rt api call w = invoke rt api call (w\<lparr>error := Some JNull\<rparr>)"
proof (intro conjI)
  show "\<exists>rest. trace (snd (invoke rt api call w)) =
       trace w @ [SetIsLoading True, SetError (Some JNull), Fetch (request_of rt api call)]
         @ rest \<and>
     (rest = [SetIsLoading False] \<and> error (snd (invoke rt api call w)) = Some JNull \<or>
      (\<exists>e. rest = [SetError e, SetIsLoading False] \<and>
           error (snd (invoke rt api call w)) = e))"
    by (simp add: invoke_unfold Let_def split: sum.splits)
  show "error (setError (Some JNull) (setIsLoading True w)) = Some JNull"
    by (simp add: setError_def setIsLoading_def)
  show "invoke rt api call w = invoke rt api call (w\<lparr>error := Some JNull\<rparr>)"
    by (simp add: invoke_unfold Let_def)
qed

theorem error_cleared_before_request_witness:
  "error failed_hook_state = Some (JStr ''bad subject'') \<and>
   fst (invoke (example_runtime (Inr job_response)) ''/api'' (SendEmail example_mail)
          failed_hook_state)
     = Inr [(''success'', Some (JBool True)), (''job_id'', Some (JStr ''j1''))] \<and>
   trace (snd (invoke (example_runtime (Inr job_response)) ''/api'' (SendEmail example_mail)
                 failed_hook_state))
     = [SetIsLoading True, SetError (Some JNull),
        Fetch (request_of (example_runtime (Inr job_response)) ''/api'' (SendEmail example_mail)),
        SetIsLoading False] \<and>
   error (snd (invoke (example_runtime (Inr job_response)) ''/api'' (SendEmail example_mail)
                 failed_hook_state)) = Some JNull"
  using error_cleared_before_request
    [of "example_runtime (Inr job_response)" "''/api''" "SendEmail example_mail"
        failed_hook_state]
  by (simp add: invoke_unfold Let_def failed_hook_state_def example_runtime_def
      job_response_def response_ok_def)

text \<open>
  Claim C9, as stated, fails: a response with an ok status (201) whose body parses, to
  \<open>null\<close>, makes \<open>sendTest\<close> resolve with \<open>success\<close> equal to \<open>false\<close> and leaves an error
  in the hook's state.
\<close>

theorem ok_status_null_body_counterexample:
  "fetch_result (example_runtime (Inr (null_response 201)))
     (request_of (example_runtime (Inr (null_response 201))) ''/api''
        (SendTest [(''to_email'', Some (JStr ''a@b.com''))]))
     = Inr (null_response 201) \<and>
   response_ok (null_response 201) \<and>
   json_result (null_response 201) = Inr JNull \<and>
   fst (invoke (example_runtime (Inr (null_response 201))) ''/api''
          (SendTest [(''to_email'', Some (JStr ''a@b.com''))]) initial_hook_state)
     = Inr [(''success'', Some (JBool False)),
            (''error'', Some (JStr ''Cannot read properties of null (reading job_id)''))] \<and>
   error (snd (invoke (example_runtime (Inr (null_response 201))) ''/api''
                 (SendTest [(''to_email'', Some (JStr ''a@b.com''))]) initial_hook_state))
     = Some (JStr ''Cannot read properties of null (reading job_id)'')"
  by (simp add: invoke_unfold Let_def example_runtime_def null_response_def response_ok_def)

text \<open>
  Claim C9, amended. For each of the five actions: when the response has an ok status
  and its body parses to a value other than \<open>null\<close>, the call resolves to
  \<open>{success: true, f: data.f}\<close> for the action's result property \<open>f\<close> and leaves the
  error state \<open>null\<close>. Nothing else of the body enters the outcome: its \<open>success\<close> and
  \<open>error\<close> properties are not read. The witness is a response with status 200 and body
  \<open>{success: false, error: "quota"}\<close>.
\<close>

theorem success_decided_by_status:
  assumes "fetch_result rt (request_of rt api call) = Inr resp"
    and "response_ok resp"
    and "json_result resp = Inr data"
    and "data \<noteq> JNull"
  shows "\<exists>v. get_prop rt data (ok_field call) = Inr v \<and>
           invoke rt api call w =
             (Inr [(''success'', Some (JBool True)), (ok_field call, v)],
              w\<lparr>isLoading := False, error := Some JNull,
                 trace := trace w @ [SetIsLoading True, SetError (Some JNull),
                                     Fetch (request_of rt api call), SetIsLoading False]\<rparr>)"
proof -
  obtain v where "get_prop rt data (ok_field call) = Inr v"
    using assms(4) get_prop_not_null by blast
  with assms show ?thesis
    by (simp add: invoke_unfold Let_def)
qed

theorem success_decided_by_status_witness:
  "fetch_result (example_runtime (Inr refusing_ok_response))
     (request_of (example_runtime (Inr refusing_ok_response)) ''/api'' (SendEmail example_mail))
     = Inr refusing_ok_response \<and>
   response_ok refusing_ok_response \<and>
   json_result refusing_ok_response
     = Inr (JObj [(''success'', JBool False), (''error'', JStr ''quota'')]) \<and>
   JObj [(''success'', JBool False), (''error'', JStr ''quota'')] \<noteq> JNull \<and>
   fst (invoke (example_runtime (Inr refusing_ok_response)) ''/api'' (SendEmail example_mail)
          initial_hook_state)
     = Inr [(''success'', Some (JBool True)), (''job_id'', None)] \<and>
   error (snd (invoke (example_runtime (Inr refusing_ok_response)) ''/api''
                 (SendEmail example_mail) initial_hook_state)) = Some JNull"
  using success_decided_by_status
    [of "example_runtime (Inr refusing_ok_response)" "''/api''" "SendEmail example_mail"
        refusing_ok_response "JObj [(''success'', JBool False), (''error'', JStr ''quota'')]"
        initial_hook_state]
  by (auto simp add: example_runtime_def refusing_ok_response_def response_ok_def)

text \<open>
  Claim C10, as stated, fails: a response with status 500 whose body is \<open>null\<close>, which
  has no \<open>error\<close> property, makes \<open>sendTemplate\<close> set the error state to the message of
  the \<open>TypeError\<close>, not to \<open>Send failed\<close>, and return that same message as the result's
  error, so the two do not differ.
\<close>

theorem non_ok_null_body_counterexample:
  "fetch_result (example_runtime (Inr (null_response 500)))
     (request_of (example_runtime (Inr (null_response 500))) ''/api''
        (SendTemplate [(''to_email'', Some (JStr ''a@b.com'')),
                       (''template_id'', Some (JStr ''t1''))]))
     = Inr (null_response 500) \<and>
   \<not> response_ok (null_response 500) \<and>
   json_result (null_response 500) = Inr JNull \<and>
   error (snd (invoke (example_runtime (Inr (null_response 500))) ''/api''
                 (SendTemplate [(''to_email'', Some (JStr ''a@b.com'')),
                                (''template_id'', Some (JStr ''t1''))]) initial_hook_state))
     = Some (JStr ''Cannot read properties of null (reading error)'') \<and>
   field (projr (fst (invoke (example_runtime (Inr (null_response 500))) ''/api''
                 (SendTemplate [(''to_email'', Some (JStr ''a@b.com'')),
                                (''template_id'', Some (JStr ''t1''))]) initial_hook_state)))
     ''error''
     = Some (JStr ''Cannot read properties of null (reading error)'')"
  by (simp add: invoke_unfold Let_def example_runtime_def null_response_def response_ok_def
      field_def)

text \<open>
  Claim C10, amended. For each of the five actions: when the response has a status
  outside 200 to 299 and its body parses to a value that is not \<open>null\<close> and has no
  \<open>error\<close> property (reading \<open>data.error\<close> gives \<open>undefined\<close>), the hook's error state
  is set to the action's fallback text, one of \<open>Subscribe failed\<close>, \<open>Unsubscribe failed\<close>,
  \<open>Send failed\<close> and \<open>Test failed\<close>, while the error of the resolved result is
  \<open>undefined\<close>.
\<close>

theorem missing_error_field_fallback:
  assumes "fetch_result rt (request_of rt api call) = Inr resp"
    and "\<not> response_ok resp"
    and "json_result resp = Inr data"
    and "get_prop rt data ''error'' = Inr None"
  shows "fst (invoke rt api call w) = Inr [(''success'', Some (JBool False)), (''error'', None)] \<and>
         field (projr (fst (invoke rt api call w))) ''error'' = None \<and>
         error (snd (invoke rt api call w)) = Some (JStr (fallback call)) \<and>
         fallback call \<in> {''Subscribe failed'', ''Unsubscribe failed'', ''Send failed'',
                           ''Test failed''}"
  using assms
  by (cases call) (simp_all add: invoke_unfold Let_def field_def js_or_def)

theorem missing_error_field_fallback_witness:
  "fetch_result (example_runtime (Inr empty_error_response))
     (request_of (example_runtime (Inr empty_error_response)) ''/api''
        (Unsubscribe ''a@b.com''))
     = Inr empty_error_response \<and>
   \<not> response_ok empty_error_response \<and>
   json_result empty_error_response = Inr (JObj []) \<and>
   get_prop (example_runtime (Inr empty_error_response)) (JObj []) ''error'' = Inr None \<and>
   fst (invoke (example_runtime (Inr empty_error_response)) ''/api'' (Unsubscribe ''a@b.com'')
          initial_hook_state)
     = Inr [(''success'', Some (JBool False)), (''error'', None)] \<and>
   error (snd (invoke (example_runtime (Inr empty_error_response)) ''/api''
                 (Unsubscribe ''a@b.com'') initial_hook_state))
     = Some (JStr ''Unsubscribe failed'')"
  using missing_error_field_fallback
    [of "example_runtime (Inr empty_error_response)" "''/api''" "Unsubscribe ''a@b.com''"
        empty_error_response "JObj []" initial_hook_state]
  by (auto simp add: example_runtime_def empty_error_response_def response_ok_def)

section \<open>Properties of the test banner\<close>

text \<open>
  Claim C5, as stated, fails: with the flag stored as \<open>true\<close> and the property
  \<open>forceShow\<close> set, the mounted banner renders its panel.
\<close>

theorem forced_banner_counterexample:
  "localStorage configured_browser (storageKey_of forced_props) = Some ''true'' \<and>
   render (fst (mount forced_props configured_browser)) =
     Some \<lparr>input_value = [], controls_disabled = False, message_box = None\<rparr>"
  by (simp add: mount_def mount_effect_def getItem_def render_def initial_button_state_def
      initial_hook_state_def configured_browser_def forced_props_def storageKey_of_def
      forceShow_of_def)

text \<open>
  Claim C5, amended. The banner renders nothing before its mount effect has run. After
  it, the banner renders its panel exactly when the flag read from local storage is
  absent or not \<open>true\<close>, or when \<open>forceShow\<close> is set. A successful test send from a
  rendered banner writes \<open>true\<close> under the storage key and sets a timer of 3000
  milliseconds; the panel stays until a timer fires and is gone after that.
\<close>

theorem banner_visibility:
  "render initial_button_state = None \<and>
   (render (fst (mount p env)) \<noteq> None) =
     (localStorage env (storageKey_of p) \<noteq> Some ''true'' \<or> forceShow_of p) \<and>
   (\<not> isConfigured st \<and> test_send_succeeds rt p st \<longrightarrow>
      localStorage (snd (snd (handleTest rt p (st, env)))) (storageKey_of p) = Some ''true'' \<and>
      timers (snd (snd (handleTest rt p (st, env)))) = timers env @ [(3000, HideBanner)] \<and>
      render (fst (snd (handleTest rt p (st, env)))) \<noteq> None \<and>
      render (fst (step rt p TimerFires (snd (handleTest rt p (st, env))))) = None)"
proof (intro conjI impI)
  show "render initial_button_state = None"
    by (simp add: render_def initial_button_state_def)
  show "(render (fst (mount p env)) \<noteq> None) =
     (localStorage env (storageKey_of p) \<noteq> Some ''true'' \<or> forceShow_of p)"
    by (simp add: mount_def mount_effect_def getItem_def render_def initial_button_state_def)
next
  assume h: "\<not> isConfigured st \<and> test_send_succeeds rt p st"
  obtain c st' env' where r: "handleTest rt p (st, env) = (c, st', env')"
    by (cases "handleTest rt p (st, env)")
  have env': "env' = setTimeout HideBanner 3000 (setItem (storageKey_of p) ''true'' env)"
    using handleTest_env [of rt p st env] h r by simp
  have st': "\<not> isConfigured st'"
    using handleTest_isConfigured [of rt p st env] h r by simp
  show "localStorage (snd (snd (handleTest rt p (st, env)))) (storageKey_of p) = Some ''true''"
    by (simp add: r env' setTimeout_def setItem_def)
  show "timers (snd (snd (handleTest rt p (st, env)))) = timers env @ [(3000, HideBanner)]"
    by (simp add: r env' setTimeout_def setItem_def)
  show "render (fst (snd (handleTest rt p (st, env)))) \<noteq> None"
    using st' by (simp add: r render_def)
  show "render (fst (step rt p TimerFires (snd (handleTest rt p (st, env))))) = None"
  proof (cases "timers env")
    case Nil
    then show ?thesis by (simp add: r env' setTimeout_def setItem_def render_def)
  next
    case (Cons t ts)
    obtain d cb where t: "t = (d, cb)" by (cases t)
    show ?thesis
      by (cases cb) (simp add: r env' setTimeout_def setItem_def render_def Cons t)
  qed
qed

theorem banner_visibility_witness:
  "\<not> isConfigured ready_state \<and>
   test_send_succeeds (example_runtime (Inr job_response)) default_props ready_state \<and>
   render (fst (mount default_props fresh_browser)) \<noteq> None \<and>
   localStorage (snd (snd (handleTest (example_runtime (Inr job_response)) default_props
                             (ready_state, fresh_browser)))) ''unisender_configured''
     = Some ''true'' \<and>
   timers (snd (snd (handleTest (example_runtime (Inr job_response)) default_props
                       (ready_state, fresh_browser)))) = [(3000, HideBanner)] \<and>
   render (fst (step (example_runtime (Inr job_response)) default_props TimerFires
                  (snd (handleTest (example_runtime (Inr job_response)) default_props
                          (ready_state, fresh_browser))))) = None"
proof -
  have a: "\<not> isConfigured ready_state"
    by (simp add: ready_state_def)
  have b: "test_send_succeeds (example_runtime (Inr job_response)) default_props ready_state"
    by (simp add: test_send_succeeds_def ready_state_def initial_button_state_def
        initial_hook_state_def sendTest_def effect_defs example_defs field_def)
  show ?thesis
    using a b banner_visibility
      [where p = default_props and env = fresh_browser and st = ready_state
         and rt = "example_runtime (Inr job_response)"]
    by (simp add: example_defs)
qed

text \<open>
  Claim C8, as stated, fails: the key is not written only once. Two clicks in a row
  that both send successfully, the second before the timer of the first has fired,
  write the flag twice.
\<close>

theorem repeated_write_counterexample:
  "storage_log (snd (run (example_runtime (Inr job_response)) default_props
                       [ChangeEmail ''a@b.com'', ClickTest, ClickTest]
                       (mount default_props fresh_browser))) =
     [GetItem ''unisender_configured'', SetItem ''unisender_configured'' ''true'',
      SetItem ''unisender_configured'' ''true'']"
  by (simp add: banner_defs sendTest_def effect_defs example_defs field_def)

text \<open>
  Claim C8, amended. The only storage access of mounting is one read of the storage
  key. Of the things that happen to a mounted banner, only a click that leads to a
  successful test send touches the storage, and it makes one write, the value \<open>true\<close>
  under the storage key, each time; editing the input, a failed or refused send and a
  timer touch nothing. So over any run after the mount, with the properties unchanged,
  the key is read exactly once. (The hook actions have no access to the storage at all.)
\<close>

theorem storage_access:
  "storage_log (snd (mount p env)) = storage_log env @ [GetItem (storageKey_of p)] \<and>
   storage_log (snd (step rt p a (st, env))) =
     storage_log env @
     (if a = ClickTest \<and> \<not> isConfigured st \<and> test_send_succeeds rt p st
      then [SetItem (storageKey_of p) ''true''] else []) \<and>
   filter is_read (storage_log (snd (run rt p acts (mount p env)))) =
     filter is_read (storage_log env) @ [GetItem (storageKey_of p)]"
proof (intro conjI)
  show m: "storage_log (snd (mount p env)) = storage_log env @ [GetItem (storageKey_of p)]"
    by (simp add: mount_def mount_effect_def getItem_def)
  show "storage_log (snd (step rt p a (st, env))) =
     storage_log env @
     (if a = ClickTest \<and> \<not> isConfigured st \<and> test_send_succeeds rt p st
      then [SetItem (storageKey_of p) ''true''] else [])"
    by (rule step_storage_log)
  show "filter is_read (storage_log (snd (run rt p acts (mount p env)))) =
     filter is_read (storage_log env) @ [GetItem (storageKey_of p)]"
    by (simp add: run_reads m)
qed

end
